theory Spec2Isabelle
  imports Complex_Main
begin

section \<open>Numeric values\<close>

text \<open>
  The program computes on IEEE double-precision numbers.  A value is either finite or
  one of the non-finite values (NaN, +inf, -inf).  Finite values are modelled by exact
  reals (rounding and overflow of finite values are not modelled); the non-finite values
  are lumped into \<open>NonFin\<close>, which is absorbing for every operation the pipeline performs
  on samples (addition, subtraction, multiplication, absolute value, division by a finite
  non-zero count): NaN and the infinities never turn back into a finite value there.
\<close>

datatype 'a fval = Fin 'a | NonFin

fun lift1 :: "('a \<Rightarrow> 'b) \<Rightarrow> 'a fval \<Rightarrow> 'b fval" where
  "lift1 f (Fin x) = Fin (f x)"
| "lift1 f NonFin = NonFin"

fun lift2 :: "('a \<Rightarrow> 'b \<Rightarrow> 'c) \<Rightarrow> 'a fval \<Rightarrow> 'b fval \<Rightarrow> 'c fval" where
  "lift2 f (Fin x) (Fin y) = Fin (f x y)"
| "lift2 f _ _ = NonFin"


definition fadd :: "real fval \<Rightarrow> real fval \<Rightarrow> real fval" where
  "fadd = lift2 (+)"

definition fsub :: "real fval \<Rightarrow> real fval \<Rightarrow> real fval" where
  "fsub = lift2 (-)"

definition fmul :: "real fval \<Rightarrow> real fval \<Rightarrow> real fval" where
  "fmul = lift2 (*)"

definition cadd :: "complex fval \<Rightarrow> complex fval \<Rightarrow> complex fval" where
  "cadd = lift2 (+)"

definition cmul :: "complex fval \<Rightarrow> complex fval \<Rightarrow> complex fval" where
  "cmul = lift2 (*)"

text \<open>\<open>np.abs\<close> on a complex array: the modulus of each element.\<close>

definition np_abs :: "complex fval \<Rightarrow> real fval" where
  "np_abs = lift1 cmod"

definition fsum :: "real fval list \<Rightarrow> real fval" where
  "fsum xs = foldr fadd xs (Fin 0)"

definition csum :: "complex fval list \<Rightarrow> complex fval" where
  "csum xs = foldr cadd xs (Fin 0)"

text \<open>
  \<open>np.mean\<close>: the sum divided by the number of elements.  On an empty array numpy
  divides 0 by 0 and returns NaN (with a RuntimeWarning, which is not an exception).
\<close>

definition np_mean :: "real fval list \<Rightarrow> real fval" where
  "np_mean xs = (if xs = [] then NonFin else lift1 (\<lambda>s. s / real (length xs)) (fsum xs))"

datatype error = ValueError | ZeroDivisionError | IndexError

section \<open>Constants of \<open>EEGVisualizer.__init__\<close>\<close>

definition timeScale :: real where "timeScale = 50"
definition timeLength :: nat where "timeLength = 240"
definition fs :: real where "fs = 256"
definition fft_size :: nat where "fft_size = 256"
definition notch_freq :: real where "notch_freq = 60"

text \<open>
  \<open>np.fft.rfftfreq(n, d)\<close>: \<open>val = 1.0/(n*d)\<close>, \<open>N = n//2 + 1\<close>,
  result \<open>arange(0, N) * val\<close>.
\<close>

definition rfftfreq :: "nat \<Rightarrow> real \<Rightarrow> real list" where
  "rfftfreq n d = map (\<lambda>k. real k * (1 / (real n * d))) [0..<n div 2 + 1]"

definition freqs :: "real list" where
  "freqs = rfftfreq fft_size (1 / fs)"

section \<open>Filter design\<close>

type_synonym coeffs = "real list \<times> real list"

text \<open>
  \<open>scipy.signal.iirnotch(w0, Q)\<close> with the default \<open>fs = 2.0\<close> (so \<open>w0\<close> is
  normalised to the Nyquist frequency), as scipy's \<open>_design_notch_peak_filter\<close> computes
  it: the range check \<open>if w0 > 1.0 or w0 < 0.0: raise ValueError\<close>, then
  \<open>bw = w0/Q*pi\<close>, \<open>w0 = w0*pi\<close>, \<open>gb = 1/sqrt(2)\<close>,
  \<open>beta = (sqrt(1 - gb**2)/gb) * tan(bw/2)\<close>, \<open>gain = 1/(1 + beta)\<close>,
  \<open>b = gain*[1, -2*cos(w0), 1]\<close>, \<open>a = [1, -2*gain*cos(w0), 2*gain - 1]\<close>.
  A quality factor of zero divides by zero (\<open>float\<close> division in Python).
\<close>

definition iirnotch :: "real \<Rightarrow> real \<Rightarrow> error + coeffs" where
  "iirnotch w0 Q =
     (if w0 > 1 \<or> w0 < 0 then Inl ValueError
      else if Q = 0 then Inl ZeroDivisionError
      else
        let bw = w0 / Q * pi;
            w = w0 * pi;
            gb = 1 / sqrt 2;
            beta = (sqrt (1 - gb ^ 2) / gb) * tan (bw / 2);
            gain = 1 / (1 + beta)
        in Inr ([gain * 1, gain * (- 2 * cos w), gain * 1],
                [1, - 2 * gain * cos w, 2 * gain - 1]))"

text \<open>\<open>create_notch_filter(notch_freq, fs, quality=30)\<close>.\<close>

definition create_notch_filter :: "real \<Rightarrow> real \<Rightarrow> real \<Rightarrow> error + coeffs" where
  "create_notch_filter nf sr quality =
     (let nyq = 0.5 * sr in
      if nyq = 0 then Inl ZeroDivisionError
      else let freq = nf / nyq in iirnotch freq quality)"




text \<open>\<open>self.notch_filter = self.create_notch_filter(self.notch_freq, self.fs)\<close>.\<close>

definition notch_filter :: coeffs where
  "notch_filter = projr (create_notch_filter notch_freq fs 30)"

section \<open>Filter application\<close>

text \<open>
  \<open>scipy.signal.lfilter(b, a, x)\<close> without \<open>zi\<close>: the direct form II transposed
  recursion, started from an all-zero delay line.  Both coefficient vectors are divided
  by \<open>a[0]\<close> and the shorter one is padded with zeros; the delay line has
  \<open>max(len(a), len(b)) - 1\<close> cells.  For each sample:
  \<open>y = z[0] + b[0]*x\<close>, \<open>z[i] = z[i+1] + b[i+1]*x - a[i+1]*y\<close>, the last cell
  \<open>z[n-2] = b[n-1]*x - a[n-1]*y\<close>.  scipy raises ValueError when \<open>a[0]\<close> is zero or
  \<open>a\<close> is empty.
\<close>

definition coef :: "real list \<Rightarrow> nat \<Rightarrow> real" where
  "coef c i = (if i < length c then c ! i else 0)"

definition cell :: "real fval list \<Rightarrow> nat \<Rightarrow> real fval" where
  "cell z i = (if i < length z then z ! i else Fin 0)"

definition df2t_step :: "real list \<Rightarrow> real list \<Rightarrow> real fval list \<Rightarrow> real fval \<Rightarrow> real fval \<times> real fval list" where
  "df2t_step b a z x =
     (let y = fadd (cell z 0) (fmul (Fin (coef b 0)) x)
      in (y, map (\<lambda>i. fsub (fadd (cell z (i + 1)) (fmul (Fin (coef b (i + 1))) x))
                             (fmul (Fin (coef a (i + 1))) y))
                 [0..<length z]))"

fun df2t_run :: "real list \<Rightarrow> real list \<Rightarrow> real fval list \<Rightarrow> real fval list \<Rightarrow> real fval list \<times> real fval list" where
  "df2t_run b a z [] = ([], z)"
| "df2t_run b a z (x # xs) =
     (let (y, z') = df2t_step b a z x;
          (ys, z'') = df2t_run b a z' xs
      in (y # ys, z''))"

definition lfilter :: "real list \<Rightarrow> real list \<Rightarrow> real fval list \<Rightarrow> error + real fval list" where
  "lfilter b a x =
     (if a = [] \<or> hd a = 0 then Inl ValueError
      else
        let b' = map (\<lambda>c. c / hd a) b;
            a' = map (\<lambda>c. c / hd a) a;
            z0 = replicate (max (length a) (length b) - 1) (Fin 0)
        in Inr (fst (df2t_run b' a' z0 x)))"

text \<open>\<open>apply_filter(data, filter_coeffs)\<close>.\<close>

definition apply_filter :: "real fval list \<Rightarrow> coeffs \<Rightarrow> error + real fval list" where
  "apply_filter data filter_coeffs = (case filter_coeffs of (b, a) \<Rightarrow> lfilter b a data)"

section \<open>Spectrum\<close>

text \<open>
  \<open>np.fft.rfft(x, n=n)\<close>: the input is cropped to its first \<open>n\<close> samples when it is
  longer and padded with zeros at the end when it is shorter; the result holds the
  \<open>n//2 + 1\<close> non-negative-frequency terms of the discrete Fourier transform,
  \<open>X[k] = sum_j x[j] * exp(-2*pi*i*j*k/n)\<close>.
\<close>

definition resize :: "nat \<Rightarrow> real fval list \<Rightarrow> real fval list" where
  "resize n x = take n x @ replicate (n - length x) (Fin 0)"

definition dft_term :: "nat \<Rightarrow> nat \<Rightarrow> nat \<times> real fval \<Rightarrow> complex fval" where
  "dft_term n k jv =
     (case jv of (j, v) \<Rightarrow>
        cmul (lift1 complex_of_real v) (Fin (cis (- 2 * pi * real j * real k / real n))))"

definition rfft :: "real fval list \<Rightarrow> nat \<Rightarrow> complex fval list" where
  "rfft x n =
     (let xn = resize n x
      in map (\<lambda>k. csum (map (dft_term n k) (enumerate 0 xn))) [0..<n div 2 + 1])"

section \<open>Band averages\<close>

definition bands :: "(real \<times> real) list" where
  "bands = [(0, 4), (4, 8), (8, 12), (12, 20), (20, 30), (30, 45)]"

text \<open>\<open>mask = (self.freqs >= low) & (self.freqs <= high)\<close>.\<close>

definition band_mask :: "real list \<Rightarrow> real \<Rightarrow> real \<Rightarrow> bool list" where
  "band_mask fr low high = map (\<lambda>f. f \<ge> low \<and> f \<le> high) fr"

text \<open>
  \<open>fft_data[mask]\<close>: the elements at the positions where the mask is true; numpy
  raises IndexError when the mask's length differs from the array's.
\<close>

definition bool_index :: "'a list \<Rightarrow> bool list \<Rightarrow> error + 'a list" where
  "bool_index xs msk =
     (if length msk \<noteq> length xs then Inl IndexError
      else Inr (map fst (filter snd (zip xs msk))))"

text \<open>The loop \<open>for low, high in bands: ... avg_heights.append(np.mean(fft_data[mask]))\<close>.\<close>

fun band_loop :: "real list \<Rightarrow> real fval list \<Rightarrow> (real \<times> real) list \<Rightarrow> real fval list \<Rightarrow> error + real fval list" where
  "band_loop fr fft_data [] avg_heights = Inr avg_heights"
| "band_loop fr fft_data ((low, high) # bs) avg_heights =
     (case bool_index fft_data (band_mask fr low high) of
        Inl e \<Rightarrow> Inl e
      | Inr sel \<Rightarrow> band_loop fr fft_data bs (avg_heights @ [np_mean sel]))"

section \<open>The visualizer's state and the per-block step\<close>

text \<open>
  The mutable part of an \<open>EEGVisualizer\<close>: the current block \<open>timeSignal\<close> written by
  the audio callback, and what \<open>update\<close> hands to the three plot items
  (\<open>timeCurve.setData\<close>, \<open>freqBars.setOpts(height=...)\<close>,
  \<open>avgBars.setOpts(height=...)\<close>).  The two band-pass filters built in \<open>__init__\<close> are
  never read by \<open>update\<close> and are left out.
\<close>

record visualizer =
  timeSignal :: "real fval list"
  timeCurve :: "real fval list"
  freqBars :: "real fval list"
  avgBars :: "real fval list"

text \<open>
  \<open>audio_callback\<close>: \<open>self.timeSignal = indata[:, 0]\<close>.  The argument is the first
  channel of the delivered frames; the previous block is replaced, not extended.
\<close>

definition audio_callback :: "real fval list \<Rightarrow> visualizer \<Rightarrow> visualizer" where
  "audio_callback indata s = s\<lparr>timeSignal := indata\<rparr>"

text \<open>
  \<open>update\<close>.  The only calls that can raise are \<open>lfilter\<close> (on a degenerate
  denominator) and the mask indexing (on a length mismatch); an exception leaves
  \<open>update\<close> before \<open>avgBars\<close> is set.
\<close>

definition update :: "visualizer \<Rightarrow> error + visualizer" where
  "update s =
     (if length (timeSignal s) = 0 then Inr s
      else
        (case apply_filter (timeSignal s) notch_filter of
           Inl e \<Rightarrow> Inl e
         | Inr filtered \<Rightarrow>
             (let fft_data = map np_abs (rfft filtered fft_size)
              in (case band_loop freqs fft_data bands [] of
                    Inl e \<Rightarrow> Inl e
                  | Inr avg_heights \<Rightarrow>
                      Inr (s\<lparr>timeCurve := map (\<lambda>v. fmul v (Fin timeScale)) filtered,
                             freqBars := take 30 fft_data,
                             avgBars := avg_heights\<rparr>)))))"

text \<open>The state \<open>__init__\<close> leaves behind: a block of zeros, an empty trace, zero bars.\<close>

definition init_state :: visualizer where
  "init_state = \<lparr>timeSignal = replicate timeLength (Fin 0), timeCurve = [],
                  freqBars = replicate 30 (Fin 0), avgBars = replicate 6 (Fin 0)\<rparr>"

section \<open>Names for the intermediate values of \<open>update\<close>\<close>

text \<open>The two numbers the designed notch coefficients are built from.\<close>

definition notch_gain :: real where
  "notch_gain = 1 / (1 + tan (pi / 128))"

definition notch_cos :: real where
  "notch_cos = cos (15 * pi / 32)"

text \<open>\<open>filtered\<close>: the notch recursion run over a block from the zero delay line.\<close>

definition notch_out :: "real fval list \<Rightarrow> real fval list" where
  "notch_out x = fst (df2t_run (fst notch_filter) (snd notch_filter) [Fin 0, Fin 0] x)"

text \<open>\<open>fft_data\<close>: the magnitude spectrum of the filtered block.\<close>

definition spectrum :: "real fval list \<Rightarrow> real fval list" where
  "spectrum x = map np_abs (rfft (notch_out x) fft_size)"

text \<open>One iteration of the band loop: the mean of the bins the mask selects.\<close>

definition band_avg :: "real list \<Rightarrow> real fval list \<Rightarrow> real \<times> real \<Rightarrow> real fval" where
  "band_avg fr d lh = np_mean (map fst (filter snd (zip d (band_mask fr (fst lh) (snd lh)))))"







section \<open>The designed notch filter\<close>

lemma gb_one: "sqrt (1 - (1 / sqrt 2)\<^sup>2) / (1 / sqrt 2) = 1"
  by (simp add: power_divide real_sqrt_divide)

lemma create_notch_ok:
  "create_notch_filter notch_freq fs 30 =
     Inr ([notch_gain, notch_gain * (- 2 * notch_cos), notch_gain],
          [1, - 2 * notch_gain * notch_cos, 2 * notch_gain - 1])"
  unfolding create_notch_filter_def iirnotch_def notch_freq_def fs_def Let_def gb_one
    notch_gain_def notch_cos_def
  by simp

lemma notch_filter_eq:
  "notch_filter = ([notch_gain, notch_gain * (- 2 * notch_cos), notch_gain],
          [1, - 2 * notch_gain * notch_cos, 2 * notch_gain - 1])"
  by (simp add: notch_filter_def create_notch_ok)



lemma apply_notch: "apply_filter x notch_filter = Inr (notch_out x)"
  by (simp add: apply_filter_def lfilter_def notch_filter_eq notch_out_def Let_def numeral_2_eq_2)

section \<open>The shape of one \<open>update\<close>\<close>

lemma length_rfft: "length (rfft x n) = n div 2 + 1"
  by (simp add: rfft_def Let_def)

lemma length_freqs: "length freqs = 129"
  by (simp add: freqs_def rfftfreq_def fft_size_def)

lemma length_spectrum: "length (spectrum x) = 129"
  by (simp add: spectrum_def length_rfft fft_size_def)

lemma band_loop_ok:
  "length d = length fr \<Longrightarrow> band_loop fr d bs acc = Inr (acc @ map (band_avg fr d) bs)"
  by (induction bs arbitrary: acc) (auto simp: bool_index_def band_mask_def band_avg_def)

lemma update_eq:
  "update s = Inr (if timeSignal s = [] then s
     else s\<lparr>timeCurve := map (\<lambda>v. fmul v (Fin timeScale)) (notch_out (timeSignal s)),
            freqBars := take 30 (spectrum (timeSignal s)),
            avgBars := map (band_avg freqs (spectrum (timeSignal s))) bands\<rparr>)"
  using band_loop_ok[of "spectrum (timeSignal s)" freqs bands "[]"]
  by (simp add: update_def apply_notch Let_def spectrum_def[symmetric] length_spectrum length_freqs)

section \<open>Which bins a band selects\<close>

lemma freqs_eq: "freqs = map real [0..<129]"
  by (simp add: freqs_def rfftfreq_def fft_size_def fs_def)

lemma freqs_nth: "k < 129 \<Longrightarrow> freqs ! k = real k"
  by (simp add: freqs_eq del: upt_Suc)

lemma select_eq:
  "length d = length fr \<Longrightarrow>
   map fst (filter snd (zip d (band_mask fr low high)))
     = map (\<lambda>k. d ! k) (filter (\<lambda>k. low \<le> fr ! k \<and> fr ! k \<le> high) [0..<length fr])"
proof (induction fr arbitrary: d rule: rev_induct)
  case Nil
  then show ?case by (simp add: band_mask_def)
next
  case (snoc f fr)
  then obtain d' x where d: "d = d' @ [x]" and l: "length d' = length fr"
    by (cases d rule: rev_cases) auto
  have m: "band_mask (fr @ [f]) low high = band_mask fr low high @ [low \<le> f \<and> f \<le> high]"
    by (simp add: band_mask_def)
  have lm: "length (band_mask fr low high) = length fr" by (simp add: band_mask_def)
  let ?P = "\<lambda>k. low \<le> fr ! k \<and> fr ! k \<le> high"
  let ?Q = "\<lambda>k. low \<le> (fr @ [f]) ! k \<and> (fr @ [f]) ! k \<le> high"
  have a: "filter ?Q [0..<length fr] = filter ?P [0..<length fr]"
    by (rule filter_cong) (auto simp: nth_append)
  have b: "map (\<lambda>k. (d' @ [x]) ! k) (filter ?P [0..<length fr])
         = map (\<lambda>k. d' ! k) (filter ?P [0..<length fr])"
    by (rule map_cong) (auto simp: nth_append l)
  have lhs: "map fst (filter snd (zip d (band_mask (fr @ [f]) low high)))
      = map fst (filter snd (zip d' (band_mask fr low high)))
        @ (if low \<le> f \<and> f \<le> high then [x] else [])"
    by (simp add: d m lm l)
  have q: "?Q (length fr) = (low \<le> f \<and> f \<le> high)" by simp
  have rhs: "map (\<lambda>k. d ! k) (filter ?Q [0..<length (fr @ [f])])
      = map (\<lambda>k. d' ! k) (filter ?P [0..<length fr])
        @ (if low \<le> f \<and> f \<le> high then [x] else [])"
    unfolding d length_append_singleton upt_Suc_append[OF le0] filter_append map_append a b
    using l by (simp add: nth_append)
  show ?case
    unfolding lhs rhs using snoc.IH[OF l] by simp
qed

lemma filter_range:
  assumes "lo \<le> hi" "hi < n"
  shows "filter (\<lambda>k. real lo \<le> real k \<and> real k \<le> real hi) [0..<n] = [lo..<Suc hi]"
proof -
  have s: "[0..<n] = [0..<lo] @ [lo..<Suc hi] @ [Suc hi..<n]"
  proof -
    have "[0..<n] = [0..<Suc hi] @ [Suc hi..<n]"
      using assms upt_add_eq_append[of 0 "Suc hi" "n - Suc hi"] by simp
    moreover have "[0..<Suc hi] = [0..<lo] @ [lo..<Suc hi]"
      using assms upt_add_eq_append[of 0 lo "Suc hi - lo"] by simp
    ultimately show ?thesis by simp
  qed
  show ?thesis
    unfolding s filter_append by (auto simp del: upt_Suc)
qed

lemma freqs_filter:
  assumes "lo \<le> hi" "hi < 129"
  shows "filter (\<lambda>k. real lo \<le> freqs ! k \<and> freqs ! k \<le> real hi) [0..<129] = [lo..<Suc hi]"
proof -
  have "filter (\<lambda>k. real lo \<le> freqs ! k \<and> freqs ! k \<le> real hi) [0..<129]
      = filter (\<lambda>k. real lo \<le> real k \<and> real k \<le> real hi) [0..<129]"
    by (rule filter_cong) (auto simp: freqs_nth simp del: upt_Suc)
  then show ?thesis using filter_range[OF assms] by simp
qed




section \<open>Band averages\<close>

lemma band_avg_eq:
  "length d = length fr \<Longrightarrow>
   band_avg fr d (low, high)
     = np_mean (map (\<lambda>k. d ! k) (filter (\<lambda>k. low \<le> fr ! k \<and> fr ! k \<le> high) [0..<length fr]))"
  by (simp add: band_avg_def select_eq)

lemma band_avg_freqs:
  assumes "length d = 129" "lo \<le> hi" "hi < 129"
  shows "band_avg freqs d (real lo, real hi) = np_mean (map (\<lambda>k. d ! k) [lo..<Suc hi])"
proof -
  have "length d = length freqs" using assms(1) by (simp add: length_freqs)
  from band_avg_eq[OF this, of "real lo" "real hi"] show ?thesis
    unfolding length_freqs freqs_filter[OF assms(2,3)] .
qed

lemma bands_avg:
  assumes "length d = 129"
  shows "map (band_avg freqs d) bands =
          [np_mean (map (\<lambda>k. d ! k) [0..<5]), np_mean (map (\<lambda>k. d ! k) [4..<9]),
                np_mean (map (\<lambda>k. d ! k) [8..<13]), np_mean (map (\<lambda>k. d ! k) [12..<21]),
                np_mean (map (\<lambda>k. d ! k) [20..<31]), np_mean (map (\<lambda>k. d ! k) [30..<46])]"
proof -
  have 1: "band_avg freqs d (0, 4) = np_mean (map (\<lambda>k. d ! k) [0..<5])"
    using band_avg_freqs[OF assms, of 0 4] by (simp del: upt_Suc)
  have 2: "band_avg freqs d (4, 8) = np_mean (map (\<lambda>k. d ! k) [4..<9])"
    using band_avg_freqs[OF assms, of 4 8] by (simp del: upt_Suc)
  have 3: "band_avg freqs d (8, 12) = np_mean (map (\<lambda>k. d ! k) [8..<13])"
    using band_avg_freqs[OF assms, of 8 12] by (simp del: upt_Suc)
  have 4: "band_avg freqs d (12, 20) = np_mean (map (\<lambda>k. d ! k) [12..<21])"
    using band_avg_freqs[OF assms, of 12 20] by (simp del: upt_Suc)
  have 5: "band_avg freqs d (20, 30) = np_mean (map (\<lambda>k. d ! k) [20..<31])"
    using band_avg_freqs[OF assms, of 20 30] by (simp del: upt_Suc)
  have 6: "band_avg freqs d (30, 45) = np_mean (map (\<lambda>k. d ! k) [30..<46])"
    using band_avg_freqs[OF assms, of 30 45] by (simp del: upt_Suc)
  show ?thesis
    unfolding bands_def list.map 1 2 3 4 5 6 ..
qed





section \<open>Band boundaries\<close>



section \<open>An empty block\<close>

text \<open>
  C9.  When the current block is empty, \<open>update\<close> returns at once: it succeeds and the
  state it returns is the state it was given, so nothing is filtered, transformed or
  aggregated and every plot keeps what it showed before.
\<close>

theorem update_empty_block:
  assumes "length (timeSignal s) = 0"
  shows "update s = Inr s"
  using assms by (simp add: update_def)

theorem update_empty_block_witness:
  "length (timeSignal (init_state\<lparr>timeSignal := []\<rparr>)) = 0
   \<and> update (init_state\<lparr>timeSignal := []\<rparr>) = Inr (init_state\<lparr>timeSignal := []\<rparr>)
   \<and> timeCurve (init_state\<lparr>timeSignal := []\<rparr>) = []
   \<and> avgBars (init_state\<lparr>timeSignal := []\<rparr>) = replicate 6 (Fin 0)"
  using update_empty_block [of "init_state\<lparr>timeSignal := []\<rparr>"]
  by (simp add: init_state_def)

section \<open>Determinism\<close>

text \<open>
  C8.  Two runs of \<open>update\<close> on the same current block always succeed, leave the
  current block as it was, and (when the block is not empty, so that something is
  emitted) hand the same trace, spectrum bars and band bars to the display, whatever
  the display showed before; running \<open>update\<close> again on the state it produced changes
  nothing.
\<close>

theorem update_deterministic:
  assumes "timeSignal s1 = timeSignal s2"
  shows "\<exists>t1 t2. update s1 = Inr t1 \<and> update s2 = Inr t2
           \<and> timeSignal t1 = timeSignal s1 \<and> timeSignal t2 = timeSignal s2
           \<and> (timeSignal s1 \<noteq> [] \<longrightarrow>
                timeCurve t1 = timeCurve t2 \<and> freqBars t1 = freqBars t2 \<and> avgBars t1 = avgBars t2)
           \<and> update t1 = Inr t1"
  using assms by (simp add: update_eq)

theorem update_deterministic_witness:
  "timeSignal (audio_callback [Fin 1, Fin 2] init_state)
     = timeSignal (audio_callback [Fin 1, Fin 2] (init_state\<lparr>avgBars := replicate 6 (Fin 7)\<rparr>))
   \<and> (\<exists>t1 t2. update (audio_callback [Fin 1, Fin 2] init_state) = Inr t1
         \<and> update (audio_callback [Fin 1, Fin 2] (init_state\<lparr>avgBars := replicate 6 (Fin 7)\<rparr>)) = Inr t2
         \<and> timeSignal t1 = [Fin 1, Fin 2] \<and> timeSignal t2 = [Fin 1, Fin 2]
         \<and> timeCurve t1 = timeCurve t2 \<and> freqBars t1 = freqBars t2 \<and> avgBars t1 = avgBars t2
         \<and> update t1 = Inr t1)"
  using update_deterministic [of "audio_callback [Fin 1, Fin 2] init_state"
      "audio_callback [Fin 1, Fin 2] (init_state\<lparr>avgBars := replicate 6 (Fin 7)\<rparr>)"]
  by (simp add: audio_callback_def)

section \<open>Non-finite values\<close>

lemma length_df2t_run: "length (fst (df2t_run b a z x)) = length x"
  by (induction x arbitrary: z) (simp_all add: split_def Let_def)

lemma length_notch_out: "length (notch_out x) = length x"
  by (simp add: notch_out_def length_df2t_run)

lemma fadd_NonFin [simp]: "fadd u NonFin = NonFin" "fadd NonFin u = NonFin"
  by (cases u; simp add: fadd_def)+

lemma fmul_NonFin [simp]: "fmul u NonFin = NonFin" "fmul NonFin u = NonFin"
  by (cases u; simp add: fmul_def)+

lemma cadd_NonFin [simp]: "cadd u NonFin = NonFin" "cadd NonFin u = NonFin"
  by (cases u; simp add: cadd_def)+

lemma cmul_NonFin [simp]: "cmul u NonFin = NonFin" "cmul NonFin u = NonFin"
  by (cases u; simp add: cmul_def)+

lemma df2t_run_NonFin:
  "i < length x \<Longrightarrow> x ! i = NonFin \<Longrightarrow> fst (df2t_run b a z x) ! i = NonFin"
proof (induction x arbitrary: z i)
  case Nil
  then show ?case by simp
next
  case (Cons v x)
  show ?case
  proof (cases i)
    case 0
    then show ?thesis using Cons.prems by (simp add: split_def Let_def df2t_step_def)
  next
    case (Suc j)
    then show ?thesis using Cons.prems Cons.IH[of j] by (simp add: split_def Let_def)
  qed
qed

lemma notch_out_NonFin: "i < length x \<Longrightarrow> x ! i = NonFin \<Longrightarrow> notch_out x ! i = NonFin"
  by (simp add: notch_out_def df2t_run_NonFin)

lemma csum_NonFin: "NonFin \<in> set xs \<Longrightarrow> csum xs = NonFin"
  by (induction xs) (auto simp: csum_def)

lemma fsum_NonFin: "NonFin \<in> set xs \<Longrightarrow> fsum xs = NonFin"
  by (induction xs) (auto simp: fsum_def)

lemma np_mean_NonFin: "NonFin \<in> set xs \<Longrightarrow> np_mean xs = NonFin"
  by (auto simp: np_mean_def fsum_NonFin)

lemma resize_nth: "i < n \<Longrightarrow> i < length x \<Longrightarrow> resize n x ! i = x ! i"
  by (simp add: resize_def nth_append)

lemma length_resize: "length (resize n x) = n"
  by (simp add: resize_def)

lemma rfft_NonFin:
  assumes "i < n" "i < length x" "x ! i = NonFin" "k < n div 2 + 1"
  shows "rfft x n ! k = NonFin"
proof -
  have "(i, NonFin) \<in> set (enumerate 0 (resize n x))"
    using assms(1-3) resize_nth[of i n x]
    by (auto simp: in_set_enumerate_eq length_resize)
  then have "dft_term n k (i, NonFin) \<in> set (map (dft_term n k) (enumerate 0 (resize n x)))"
    unfolding set_map by (rule imageI)
  moreover have "dft_term n k (i, NonFin) = NonFin" by (simp add: dft_term_def)
  ultimately have "csum (map (dft_term n k) (enumerate 0 (resize n x))) = NonFin"
    using csum_NonFin by metis
  then show ?thesis using assms(4) by (simp add: rfft_def Let_def del: upt_Suc)
qed

lemma spectrum_NonFin:
  assumes "i < 256" "i < length x" "x ! i = NonFin"
  shows "spectrum x = replicate 129 NonFin"
proof (rule nth_equalityI)
  show "length (spectrum x) = length (replicate 129 (NonFin::real fval))"
    by (simp add: length_spectrum)
next
  fix k assume "k < length (spectrum x)"
  then have k: "k < 129" by (simp add: length_spectrum)
  have "rfft (notch_out x) fft_size ! k = NonFin"
    using rfft_NonFin[of i fft_size "notch_out x" k] assms k notch_out_NonFin[of i x]
    by (simp add: fft_size_def length_notch_out)
  then show "spectrum x ! k = replicate 129 NonFin ! k"
    using k by (simp add: spectrum_def length_rfft fft_size_def np_abs_def)
qed

lemma bands_avg_NonFin:
  assumes "length d = 129" "\<forall>k<129. d ! k = NonFin"
  shows "map (band_avg freqs d) bands = replicate 6 NonFin"
proof -
  have m: "np_mean (map (\<lambda>k. d ! k) [a..<b]) = NonFin" if "a < b" "b \<le> 129" for a b
  proof -
    have "d ! a = NonFin" using that assms(2) by simp
    moreover have "a \<in> set [a..<b]" using that by simp
    ultimately have "NonFin \<in> set (map (\<lambda>k. d ! k) [a..<b])"
      unfolding set_map by (metis imageI)
    then show ?thesis by (rule np_mean_NonFin)
  qed
  have r: "replicate 6 (NonFin::real fval) = [NonFin, NonFin, NonFin, NonFin, NonFin, NonFin]"
    by (simp add: numeral_eq_Suc)
  show ?thesis
    unfolding bands_avg[OF assms(1)] r
    using m[of 0 5] m[of 4 9] m[of 8 13] m[of 12 21] m[of 20 31] m[of 30 46]
    by (simp del: upt_Suc)
qed

text \<open>
  C4 (as the code has it).  \<open>update\<close> has no finiteness check and never fails: for every
  state it returns a state.  A non-finite sample among the first 256 samples of the
  current block makes the trace non-finite at that sample, and all thirty spectrum
  bars and all six band averages handed to the display non-finite.
\<close>

theorem nonfinite_samples_are_emitted:
  assumes "i < length (timeSignal s)" "i < 256" "timeSignal s ! i = NonFin"
  shows "update s = Inr (s\<lparr>timeCurve := map (\<lambda>v. fmul v (Fin timeScale)) (notch_out (timeSignal s)),
                            freqBars := replicate 30 NonFin,
                            avgBars := replicate 6 NonFin\<rparr>)
    \<and> map (\<lambda>v. fmul v (Fin timeScale)) (notch_out (timeSignal s)) ! i = NonFin
    \<and> (\<forall>t. \<exists>t'. update t = Inr t')"
proof -
  have ne: "timeSignal s \<noteq> []" using assms(1) by auto
  have sp: "spectrum (timeSignal s) = replicate 129 NonFin"
    using spectrum_NonFin[OF assms(2,1,3)] .
  have av: "map (band_avg freqs (spectrum (timeSignal s))) bands = replicate 6 NonFin"
    unfolding sp by (rule bands_avg_NonFin) simp_all
  have tk: "take 30 (spectrum (timeSignal s)) = replicate 30 NonFin"
    unfolding sp by simp
  have 1: "update s = Inr (s\<lparr>timeCurve := map (\<lambda>v. fmul v (Fin timeScale)) (notch_out (timeSignal s)),
                            freqBars := replicate 30 NonFin,
                            avgBars := replicate 6 NonFin\<rparr>)"
    unfolding update_eq av tk using ne by simp
  have 2: "map (\<lambda>v. fmul v (Fin timeScale)) (notch_out (timeSignal s)) ! i = NonFin"
    using assms(1,3) notch_out_NonFin[of i "timeSignal s"] by (simp add: length_notch_out)
  have 3: "\<forall>t. \<exists>t'. update t = Inr t'" by (simp add: update_eq)
  from 1 2 3 show ?thesis by blast
qed

lemma notch_out_single_NonFin: "notch_out [NonFin] = [NonFin]"
  by (simp add: notch_out_def df2t_step_def Let_def)

theorem nonfinite_samples_are_emitted_witness:
  "1 < length (timeSignal (audio_callback [Fin 1, NonFin] init_state))
   \<and> timeSignal (audio_callback [Fin 1, NonFin] init_state) ! 1 = NonFin
   \<and> (\<exists>s'. update (audio_callback [Fin 1, NonFin] init_state) = Inr s'
         \<and> freqBars s' = replicate 30 NonFin \<and> avgBars s' = replicate 6 NonFin
         \<and> timeCurve s' ! 1 = NonFin)"
  using nonfinite_samples_are_emitted [of 1 "audio_callback [Fin 1, NonFin] init_state"]
  by (simp add: audio_callback_def)

text \<open>
  C4 fails as stated: for the one-sample block holding NaN, \<open>update\<close> returns normally
  and emits non-finite values to all three plots.
\<close>

theorem nan_block_counterexample:
  "update (audio_callback [NonFin] init_state)
     = Inr \<lparr>timeSignal = [NonFin], timeCurve = [NonFin],
            freqBars = replicate 30 NonFin, avgBars = replicate 6 NonFin\<rparr>"
proof -
  have "spectrum [NonFin] = replicate 129 NonFin"
    by (rule spectrum_NonFin[of 0]) simp_all
  moreover have "map (band_avg freqs (replicate 129 NonFin)) bands = replicate 6 NonFin"
    by (rule bands_avg_NonFin) simp_all
  ultimately show ?thesis
    by (simp add: update_eq audio_callback_def init_state_def notch_out_single_NonFin)
qed

section \<open>The block handed to the transform\<close>

lemma resize_resize: "resize n (resize n x) = resize n x"
  by (simp add: resize_def)

lemma rfft_resize: "rfft (resize n x) n = rfft x n"
  by (simp add: rfft_def resize_resize)

text \<open>
  C5.  The transform always works on exactly \<open>fft_size = 256\<close> samples: every bin of
  \<open>rfft\<close> is the Fourier sum over the resized block.  A block of at most 256 samples is
  extended with zeros at its end, a block of at least 256 samples is cut to its first
  256 samples, and the usual 240-sample block gets 16 zeros appended.  \<open>update\<close> feeds
  the filtered block, which is as long as the captured block, to this transform.
\<close>

theorem transform_input_has_fft_size:
  "length (resize fft_size x) = 256
   \<and> rfft x fft_size
       = map (\<lambda>k. csum (map (dft_term 256 k) (enumerate 0 (resize fft_size x)))) [0..<129]
   \<and> (length x \<le> 256 \<longrightarrow> resize fft_size x = x @ replicate (256 - length x) (Fin 0)
         \<and> rfft x fft_size = rfft (x @ replicate (256 - length x) (Fin 0)) fft_size)
   \<and> (256 \<le> length x \<longrightarrow> resize fft_size x = take 256 x
         \<and> rfft x fft_size = rfft (take 256 x) fft_size)
   \<and> (length x = 240 \<longrightarrow> resize fft_size x = x @ replicate 16 (Fin 0))
   \<and> (\<forall>s. timeSignal s \<noteq> [] \<longrightarrow>
         (\<exists>s'. update s = Inr s'
            \<and> freqBars s' = take 30 (map np_abs (rfft (resize fft_size (notch_out (timeSignal s))) fft_size))
            \<and> length (notch_out (timeSignal s)) = length (timeSignal s)))"
proof -
  have 1: "length (resize fft_size x) = 256" by (simp add: length_resize fft_size_def)
  have 2: "rfft x fft_size
       = map (\<lambda>k. csum (map (dft_term 256 k) (enumerate 0 (resize fft_size x)))) [0..<129]"
    by (simp add: rfft_def fft_size_def Let_def del: upt_Suc)
  have 3: "resize fft_size x = x @ replicate (256 - length x) (Fin 0)" if "length x \<le> 256"
    using that by (simp add: resize_def fft_size_def)
  have 4: "resize fft_size x = take 256 x" if "256 \<le> length x"
    using that by (simp add: resize_def fft_size_def)
  have 5: "resize fft_size x = x @ replicate 16 (Fin 0)" if "length x = 240"
    using that by (simp add: resize_def fft_size_def)
  have 6: "\<exists>s'. update s = Inr s'
            \<and> freqBars s' = take 30 (map np_abs (rfft (resize fft_size (notch_out (timeSignal s))) fft_size))
            \<and> length (notch_out (timeSignal s)) = length (timeSignal s)"
    if "timeSignal s \<noteq> []" for s :: visualizer
    using that by (simp add: update_eq rfft_resize spectrum_def length_notch_out)
  show ?thesis
    using 1 2 3 4 5 6 rfft_resize[of fft_size x] by metis
qed

theorem transform_input_has_fft_size_witness:
  "length (replicate 240 (Fin 0 :: real fval)) = 240
   \<and> resize fft_size (replicate 240 (Fin 0)) = replicate 240 (Fin 0) @ replicate 16 (Fin 0)
   \<and> 256 \<le> length (replicate 300 (Fin 1 :: real fval))
   \<and> resize fft_size (replicate 300 (Fin 1)) = replicate 256 (Fin 1)
   \<and> length ([Fin 1, Fin 2] :: real fval list) \<le> 256
   \<and> resize fft_size [Fin 1, Fin 2] = [Fin 1, Fin 2] @ replicate 254 (Fin 0)"
  using transform_input_has_fft_size [of "replicate 240 (Fin 0)"]
    transform_input_has_fft_size [of "replicate 300 (Fin 1)"]
    transform_input_has_fft_size [of "[Fin 1, Fin 2]"]
  by simp

section \<open>Bands without bins\<close>






section \<open>Filtering block by block\<close>

lemma df2t_run_append:
  "df2t_run b a z (xs @ ys) =
     (fst (df2t_run b a z xs) @ fst (df2t_run b a (snd (df2t_run b a z xs)) ys),
      snd (df2t_run b a (snd (df2t_run b a z xs)) ys))"
  by (induction xs arbitrary: z) (simp_all add: split_def Let_def)

lemma sin_lower: 
  fixes x :: real
  assumes "0 \<le> x"
  shows "x - x ^ 3 / 6 \<le> sin x"
proof -
  have "\<bar>sin x - (\<Sum>m<3. sin_coeff m * x ^ m)\<bar> \<le> inverse (fact 3) * \<bar>x\<bar> ^ 3"
    by (rule Maclaurin_sin_bound)
  moreover have "(\<Sum>m<3. sin_coeff m * x ^ m) = x"
  proof -
    have c: "sin_coeff 0 = 0" "sin_coeff (Suc 0) = 1" "sin_coeff (Suc (Suc 0)) = 0"
      by (simp_all add: sin_coeff_def)
    have "{..<3::nat} = {..<Suc (Suc (Suc 0))}" by (simp only: numeral_3_eq_3)
    then show ?thesis by (simp only: sum.lessThan_Suc c) simp
  qed
  moreover have "inverse (fact 3) * \<bar>x\<bar> ^ 3 = x ^ 3 / 6"
  proof -
    have "fact 3 = (6::real)" by (simp add: fact_numeral)
    then show ?thesis using assms by (simp add: inverse_eq_divide)
  qed
  ultimately have "\<bar>sin x - x\<bar> \<le> x ^ 3 / 6" by simp
  then show ?thesis by linarith
qed

lemma notch_cos_sin: "notch_cos = sin (pi / 32)"
proof -
  have "cos (15 * pi / 32) = sin (pi / 2 - 15 * pi / 32)" by (simp only: sin_cos_eq) simp
  also have "pi / 2 - 15 * pi / 32 = pi / 32" by simp
  finally show ?thesis by (simp add: notch_cos_def)
qed

lemma notch_cos_bounds: "1 / 17 < notch_cos" "notch_cos \<le> 1"
proof -
  have p: "2 \<le> pi" "pi < 4" using pi_ge_two pi_less_4 by auto
  let ?x = "pi / 32"
  have x: "1 / 16 \<le> ?x" "?x \<le> 1 / 8" using p by auto
  have "?x ^ 3 \<le> (1 / 8) ^ 3" using x by (intro power_mono) auto
  then have "?x - ?x ^ 3 / 6 \<ge> 1 / 16 - (1 / 8) ^ 3 / 6" using x by linarith
  moreover have "?x - ?x ^ 3 / 6 \<le> sin ?x" by (rule sin_lower) simp
  ultimately show "1 / 17 < notch_cos" unfolding notch_cos_sin by (simp add: power3_eq_cube)
  show "notch_cos \<le> 1" by (simp add: notch_cos_def)
qed

lemma tan_notch_bounds: "1 / 65 < tan (pi / 128)" "tan (pi / 128) < 1"
proof -
  have p: "2 \<le> pi" "pi < 4" using pi_ge_two pi_less_4 by auto
  let ?x = "pi / 128"
  have x: "1 / 64 \<le> ?x" "?x \<le> 1 / 32" using p by auto
  have "?x ^ 3 \<le> (1 / 32) ^ 3" using x by (intro power_mono) auto
  then have "?x - ?x ^ 3 / 6 \<ge> 1 / 64 - (1 / 32) ^ 3 / 6" using x by linarith
  moreover have "?x - ?x ^ 3 / 6 \<le> sin ?x" by (rule sin_lower) simp
  ultimately have s: "1 / 65 < sin ?x" by (simp add: power3_eq_cube)
  have c: "0 < cos ?x" by (rule cos_gt_zero_pi) (use p in auto)
  have "sin ?x \<le> sin ?x / cos ?x"
    using s c cos_le_one[of ?x] by (simp add: pos_le_divide_eq mult_left_le)
  with s have "1 / 65 < sin ?x / cos ?x" by linarith
  then show "1 / 65 < tan ?x" unfolding tan_def .
  have "tan ?x < tan (pi / 4)" by (rule tan_monotone) (use p in auto)
  then show "tan ?x < 1" by (simp add: tan_45)
qed

lemma notch_gain_bounds: "1 / 2 < notch_gain" "notch_gain < 65 / 66"
  using tan_notch_bounds
  by (simp_all add: notch_gain_def field_simps)

lemma notch_state_gap: "- 2 * notch_gain * notch_cos * (1 - notch_gain) < - 1 / 1200"
proof -
  have g: "1 / 2 < notch_gain" "1 / 66 < 1 - notch_gain" using notch_gain_bounds by auto
  have c: "1 / 17 < notch_cos" by (rule notch_cos_bounds)
  have gc: "1 / 2 * (1 / 17) < notch_gain * notch_cos"
    by (rule mult_strict_mono[OF g(1) c]) (use g(1) in auto)
  have "1 / 2 * (1 / 17) * (1 / 66) < notch_gain * notch_cos * (1 - notch_gain)"
    by (rule mult_strict_mono[OF gc g(2)]) (use gc in auto)
  then show ?thesis by simp
qed

text \<open>
  C1 (as the code has it).  \<open>apply_filter\<close> keeps no delay line between calls: every
  call runs the recursion from the all-zero delay line.  Filtering the concatenation
  of two blocks gives the first block's output followed by the second block filtered
  from the delay line the first block left behind, whereas filtering the second block
  on its own starts again from zeros.
\<close>

theorem apply_filter_restarts_each_block:
  "apply_filter x1 notch_filter = Inr (notch_out x1)
   \<and> apply_filter x2 notch_filter
       = Inr (fst (df2t_run (fst notch_filter) (snd notch_filter) [Fin 0, Fin 0] x2))
   \<and> apply_filter (x1 @ x2) notch_filter
       = Inr (notch_out x1 @
              fst (df2t_run (fst notch_filter) (snd notch_filter)
                     (snd (df2t_run (fst notch_filter) (snd notch_filter) [Fin 0, Fin 0] x1)) x2))"
  by (simp add: apply_notch notch_out_def df2t_run_append)

text \<open>
  C1 fails as stated: for the blocks \<open>[1]\<close> and \<open>[0]\<close> the block-by-block outputs are
  \<open>[gain]\<close> and \<open>[0]\<close>, while the one-pass output of \<open>[1, 0]\<close> has the second sample
  \<open>-2 * gain * cos(w0) * (1 - gain)\<close>, which lies below \<open>-1/1200\<close>: a gap no rounding
  tolerance covers.
\<close>

theorem block_split_counterexample:
  "apply_filter [Fin 1] notch_filter = Inr [Fin notch_gain]
   \<and> apply_filter [Fin 0] notch_filter = Inr [Fin 0]
   \<and> apply_filter [Fin 1, Fin 0] notch_filter
       = Inr [Fin notch_gain, Fin (- 2 * notch_gain * notch_cos * (1 - notch_gain))]
   \<and> - 2 * notch_gain * notch_cos * (1 - notch_gain) < - 1 / 1200"
proof -
  have 1: "notch_out [Fin 1] = [Fin notch_gain]"
    by (simp add: notch_out_def notch_filter_eq df2t_step_def Let_def cell_def coef_def
        fadd_def fsub_def fmul_def)
  have 2: "notch_out [Fin 0] = [Fin 0]"
    by (simp add: notch_out_def notch_filter_eq df2t_step_def Let_def cell_def coef_def
        fadd_def fsub_def fmul_def)
  have 3: "notch_out [Fin 1, Fin 0]
      = [Fin notch_gain, Fin (- 2 * notch_gain * notch_cos * (1 - notch_gain))]"
    by (simp add: notch_out_def notch_filter_eq df2t_step_def Let_def cell_def coef_def
        fadd_def fsub_def fmul_def algebra_simps)
  show ?thesis
    using 1 2 3 notch_state_gap by (simp add: apply_notch)
qed

section \<open>Out-of-range design parameters\<close>




section \<open>The notch filter on a sinusoid\<close>


































end
